theory Spec2Isabelle
  imports Complex_Main
begin

section \<open>Deposit aggregation with a per-wallet cache (src/utils/solana.ts)\<close>

text \<open>
  The development embeds \<^verbatim>\<open>getUserStakedAmount\<close> of \<^verbatim>\<open>src/utils/solana.ts\<close>, the
  function the specification calls \<^verbatim>\<open>getUserDeposit\<close>.

  Conventions of the embedding:
  \<^item> \<^verbatim>\<open>Date.now()\<close> and the cached timestamps are milliseconds, modelled as \<open>int\<close>;
  \<^item> token amounts (\<^verbatim>\<open>uiAmount\<close>, \<^verbatim>\<open>total\<close>) are JavaScript numbers; they are modelled as
    \<open>real\<close>, so the rounding of IEEE doubles is not part of the model, and
    \<^verbatim>\<open>uiAmount: number | null\<close> is a \<open>real option\<close>;
  \<^item> the module-level \<^verbatim>\<open>Map<string, CacheEntry>\<close> is a map passed in and returned;
  \<^item> a thrown error is the \<open>Inl\<close> of a sum; the function returns its result, the cache
    it leaves and the list of network requests it issued, in order;
  \<^item> one call is modelled from its first line to its return: no other call touches
    the cache in between;
  \<^item> \<^verbatim>\<open>SOLANA_CONSTANTS\<close> (module \<^verbatim>\<open>./constants\<close>), the \<^verbatim>\<open>PublicKey\<close> constructor and
    the \<^verbatim>\<open>Connection\<close> are not part of the file: they are parameters.
\<close>

subsection \<open>Data\<close>

text \<open>\<^verbatim>\<open>interface CacheEntry { amount: number; timestamp: number }\<close> (lines 5-8).\<close>

record CacheEntry =
  amount :: real
  timestamp :: int

type_synonym cache = "string \<rightharpoonup> CacheEntry"

text \<open>The three fields of \<^verbatim>\<open>SOLANA_CONSTANTS\<close> the function reads; the two keys stand for
  the result of their \<^verbatim>\<open>toString()\<close>.\<close>

record Constants =
  CACHE_DURATION :: int
  INCUBATOR_WALLET :: string
  USDT_MINT :: string

text \<open>The errors a call can end with, named as in the specification's taxonomy. The
  source has no error classes of its own: \<open>InvalidAccount\<close> is what \<^verbatim>\<open>new PublicKey\<close>
  throws, \<open>SourceUnavailable\<close> what awaiting a rejected request of the connection
  throws. No line of the source constructs \<open>NoDataAvailable\<close>.\<close>

datatype error = InvalidAccount | SourceUnavailable | NoDataAvailable

text \<open>One entry of \<^verbatim>\<open>preTokenBalances\<close> / \<^verbatim>\<open>postTokenBalances\<close>, with the fields the
  function reads; \<open>uiAmount\<close> is \<^verbatim>\<open>uiTokenAmount.uiAmount\<close>.\<close>

record TokenBalance =
  accountIndex :: nat
  owner :: "string option"
  mint :: string
  uiAmount :: "real option"

record ParsedMeta =
  postTokenBalances :: "TokenBalance list option"
  preTokenBalances :: "TokenBalance list option"

text \<open>A parsed transaction as \<^verbatim>\<open>connection.getParsedTransaction\<close> resolves with it:
  \<^verbatim>\<open>tx.transaction.signatures\<close>, \<^verbatim>\<open>tx.transaction.message.accountKeys\<close> (each key as its
  \<^verbatim>\<open>pubkey.toString()\<close>) and \<^verbatim>\<open>tx.meta\<close>.\<close>

record ParsedTx =
  transaction_signatures :: "string list"
  accountKeys :: "string list"
  meta :: "ParsedMeta option"

text \<open>\<^verbatim>\<open>tx.signature\<close> (lines 56-57). The object has its signatures under
  \<^verbatim>\<open>transaction.signatures\<close> and no property \<^verbatim>\<open>signature\<close> of its own, so the read gives
  \<^verbatim>\<open>undefined\<close>, here \<open>None\<close>, for every transaction.\<close>

definition signature :: "ParsedTx \<Rightarrow> string option" where
  "signature tx = None"

text \<open>The connection answers the two requests of the function: the signature list of
  an address, and a parsed transaction (or \<^verbatim>\<open>null\<close>) for a signature. A request is
  a promise that resolves with a value or rejects.\<close>

datatype 'a response = Rejected | Resolved 'a

record Connection =
  getSignaturesForAddress :: "string \<Rightarrow> string list response"
  getParsedTransaction :: "string \<Rightarrow> ParsedTx option response"

datatype NetCall = GetSignaturesForAddress string | GetParsedTransaction string

subsection \<open>The cache (lines 13-26)\<close>

text \<open>Lines 16-20: every entry with \<^verbatim>\<open>now - entry.timestamp > CACHE_DURATION\<close> is deleted.\<close>

definition purgeExpired :: "Constants \<Rightarrow> int \<Rightarrow> cache \<Rightarrow> cache" where
  "purgeExpired K now c =
     (\<lambda>key. case c key of
        None \<Rightarrow> None
      | Some entry \<Rightarrow> if now - timestamp entry > CACHE_DURATION K then None else Some entry)"

text \<open>Lines 23-24: the condition \<^verbatim>\<open>cached && (now - cached.timestamp) < CACHE_DURATION\<close>.\<close>

definition isFresh :: "Constants \<Rightarrow> int \<Rightarrow> CacheEntry option \<Rightarrow> bool" where
  "isFresh K now cached =
     (case cached of None \<Rightarrow> False | Some c \<Rightarrow> now - timestamp c < CACHE_DURATION K)"

subsection \<open>The aggregation loop (lines 38-84)\<close>

text \<open>\<^verbatim>\<open>x || 0\<close> on \<^verbatim>\<open>number | null | undefined\<close>.\<close>

definition orZero :: "real option \<Rightarrow> real" where
  "orZero x = (case x of None \<Rightarrow> 0 | Some v \<Rightarrow> v)"

text \<open>Lines 70-71, the condition on a post-balance entry.\<close>

definition qualifies :: "Constants \<Rightarrow> TokenBalance \<Rightarrow> bool" where
  "qualifies K post = (owner post = Some (INCUBATOR_WALLET K) \<and> mint post = USDT_MINT K)"

text \<open>Lines 73-74: \<^verbatim>\<open>preBalances.find(b => b.accountIndex === post.accountIndex)\<close> and
  \<^verbatim>\<open>pre?.uiTokenAmount.uiAmount || 0\<close>.\<close>

definition preAmountOf :: "TokenBalance list \<Rightarrow> TokenBalance \<Rightarrow> real" where
  "preAmountOf preBalances post =
     (case find (\<lambda>b. accountIndex b = accountIndex post) preBalances of
        None \<Rightarrow> 0
      | Some pre \<Rightarrow> orZero (uiAmount pre))"

text \<open>Lines 70-80, the body of the loop over \<^verbatim>\<open>postBalances\<close>.\<close>

definition processPost :: "Constants \<Rightarrow> TokenBalance list \<Rightarrow> TokenBalance \<Rightarrow> real \<Rightarrow> real" where
  "processPost K preBalances post tot =
     (if qualifies K post then
        (let preAmount = preAmountOf preBalances post;
             postAmount = orZero (uiAmount post)
         in if postAmount > preAmount then tot + (postAmount - preAmount) else tot)
      else tot)"

text \<open>\<^verbatim>\<open>xs || []\<close> on an optional array.\<close>

definition orEmpty :: "'a list option \<Rightarrow> 'a list" where
  "orEmpty xs = (case xs of None \<Rightarrow> [] | Some ys \<Rightarrow> ys)"

text \<open>Lines 56-82, the body of the loop over \<^verbatim>\<open>transactions\<close>; the state is
  \<^verbatim>\<open>total\<close> and \<^verbatim>\<open>processedTxs\<close>, the set of the values read as \<^verbatim>\<open>tx.signature\<close>.\<close>

definition processTx ::
  "Constants \<Rightarrow> string \<Rightarrow> ParsedTx option \<Rightarrow> real \<times> string option set
     \<Rightarrow> real \<times> string option set" where
  "processTx K walletAddress txo st =
     (case st of (tot, processedTxs) \<Rightarrow>
        (case txo of
           None \<Rightarrow> (tot, processedTxs)
         | Some tx \<Rightarrow>
             (case meta tx of
                None \<Rightarrow> (tot, processedTxs)
              | Some m \<Rightarrow>
                  if signature tx \<in> processedTxs then (tot, processedTxs)
                  else
                    (let processedTxs' = insert (signature tx) processedTxs;
                         isFromUser = list_ex (\<lambda>key. key = walletAddress) (accountKeys tx)
                     in if isFromUser then
                          (let postBalances = orEmpty (postTokenBalances m);
                               preBalances = orEmpty (preTokenBalances m)
                           in (fold (processPost K preBalances) postBalances tot, processedTxs'))
                        else (tot, processedTxs')))))"

text \<open>\<^verbatim>\<open>Promise.all\<close>: the results in order, or a rejection. Every request of the array
  has been issued by then. (With several rejections JavaScript reports the earliest in
  time; every rejection is the same error in the model.)\<close>

fun promiseAll :: "'a response list \<Rightarrow> error + 'a list" where
  "promiseAll [] = Inr []"
| "promiseAll (r # rs) =
     (case r of
        Rejected \<Rightarrow> Inl SourceUnavailable
      | Resolved x \<Rightarrow> (case promiseAll rs of Inl e \<Rightarrow> Inl e | Inr xs \<Rightarrow> Inr (x # xs)))"

definition batchSize :: nat where
  "batchSize = 10"

text \<open>Lines 43-84: \<^verbatim>\<open>for (let i = 0; i < signatures.length; i += batchSize)\<close>, with
  \<^verbatim>\<open>signatures.slice(i, i + batchSize)\<close> as \<open>take batchSize (drop i signatures)\<close>.
  The result is the state after the last batch, or the error that ended the loop, and
  the requests issued.\<close>

function processBatches ::
  "Constants \<Rightarrow> Connection \<Rightarrow> string \<Rightarrow> string list \<Rightarrow> nat \<Rightarrow> real \<times> string option set
     \<Rightarrow> (error + real \<times> string option set) \<times> NetCall list" where
  "processBatches K connection walletAddress signatures i st =
     (if i < length signatures then
        (let batch = take batchSize (drop i signatures);
             calls = map GetParsedTransaction batch
         in case promiseAll (map (getParsedTransaction connection) batch) of
              Inl e \<Rightarrow> (Inl e, calls)
            | Inr transactions \<Rightarrow>
                (case processBatches K connection walletAddress signatures (i + batchSize)
                        (fold (processTx K walletAddress) transactions st) of
                   (r, calls') \<Rightarrow> (r, calls @ calls')))
      else (Inr st, []))"
  by pat_completeness auto
termination
  by (relation "measure (\<lambda>(K, connection, walletAddress, signatures, i, st). length signatures - i)")
     (auto simp: batchSize_def)

declare processBatches.simps [simp del]

subsection \<open>The fetch pipeline and the entry point\<close>

text \<open>Lines 29-84, the body of the \<^verbatim>\<open>try\<close> up to the loop's end: validation of the
  wallet address, the signature request, the batches. \<open>validPublicKey\<close> says whether
  \<^verbatim>\<open>new PublicKey(walletAddress)\<close> returns.\<close>

definition fetchPipeline ::
  "Constants \<Rightarrow> (string \<Rightarrow> bool) \<Rightarrow> Connection \<Rightarrow> string \<Rightarrow> (error + real) \<times> NetCall list" where
  "fetchPipeline K validPublicKey connection walletAddress =
     (if \<not> validPublicKey walletAddress then (Inl InvalidAccount, [])
      else
        (let call0 = GetSignaturesForAddress (INCUBATOR_WALLET K)
         in case getSignaturesForAddress connection (INCUBATOR_WALLET K) of
              Rejected \<Rightarrow> (Inl SourceUnavailable, [call0])
            | Resolved signatures \<Rightarrow>
                (case processBatches K connection walletAddress signatures 0 (0, {}) of
                   (Inl e, calls) \<Rightarrow> (Inl e, call0 # calls)
                 | (Inr (tot, processedTxs), calls) \<Rightarrow> (Inr tot, call0 # calls))))"

text \<open>Lines 12-104. The result is what the promise settles with, the cache after the
  call, and the requests issued.\<close>

definition getUserStakedAmount ::
  "Constants \<Rightarrow> (string \<Rightarrow> bool) \<Rightarrow> Connection \<Rightarrow> int \<Rightarrow> cache \<Rightarrow> string
     \<Rightarrow> (error + real) \<times> cache \<times> NetCall list" where
  "getUserStakedAmount K validPublicKey connection now stakedAmountCache walletAddress =
     (let cache1 = purgeExpired K now stakedAmountCache;
          cached = cache1 walletAddress
      in if isFresh K now cached then (Inr (amount (the cached)), cache1, [])
         else
           (case fetchPipeline K validPublicKey connection walletAddress of
              (Inr tot, calls) \<Rightarrow>
                (Inr tot,
                 cache1(walletAddress \<mapsto> \<lparr>amount = tot, timestamp = now\<rparr>),
                 calls)
            | (Inl e, calls) \<Rightarrow>
                (case cache1 walletAddress of
                   Some c \<Rightarrow> (Inr (amount c), cache1, calls)
                 | None \<Rightarrow> (Inl e, cache1, calls))))"

subsection \<open>The aggregator as a function of the fetched transactions\<close>

text \<open>Lines 38-39 and 55-83 over all fetched transactions in order, from
  \<^verbatim>\<open>total = 0\<close> and an empty \<^verbatim>\<open>processedTxs\<close>: the total the loop ends with when every
  batch resolves (lemma \<open>fetchPipeline_fst\<close> below).\<close>

definition aggregate :: "Constants \<Rightarrow> string \<Rightarrow> ParsedTx option list \<Rightarrow> real" where
  "aggregate K walletAddress transactions =
     fst (fold (processTx K walletAddress) transactions (0, {}))"

text \<open>What one transaction adds when it is the only one processed.\<close>

definition txContribution :: "Constants \<Rightarrow> string \<Rightarrow> ParsedTx \<Rightarrow> real" where
  "txContribution K walletAddress tx = fst (processTx K walletAddress (Some tx) (0, {}))"

subsection \<open>The specification's reading, for comparison\<close>

text \<open>The transactions the source resolved and that carry \<^verbatim>\<open>meta\<close>; the others are
  skipped before the identifier is looked at (line 56).\<close>

fun withMeta :: "ParsedTx option list \<Rightarrow> ParsedTx list" where
  "withMeta [] = []"
| "withMeta (None # rest) = withMeta rest"
| "withMeta (Some tx # rest) = (if meta tx = None then withMeta rest else tx # withMeta rest)"

text \<open>Deduplication by the value read as the detail's identifier: of the details with
  one such value only the first is kept.\<close>

fun firstBySignature :: "ParsedTx list \<Rightarrow> ParsedTx list" where
  "firstBySignature [] = []"
| "firstBySignature (t # ts) =
     t # firstBySignature (filter (\<lambda>u. signature u \<noteq> signature t) ts)"

text \<open>The details that reach the balance loop of lines 65-81: resolved, with \<^verbatim>\<open>meta\<close>,
  not skipped by line 56, and with the wallet address among their account keys.\<close>

definition processedDetails :: "string \<Rightarrow> ParsedTx option list \<Rightarrow> ParsedTx list" where
  "processedDetails walletAddress details =
     filter (\<lambda>t. walletAddress \<in> set (accountKeys t)) (firstBySignature (withMeta details))"

text \<open>The balance lists of a transaction (lines 65-66).\<close>

definition txPostBalances :: "ParsedTx \<Rightarrow> TokenBalance list" where
  "txPostBalances tx = (case meta tx of None \<Rightarrow> [] | Some m \<Rightarrow> orEmpty (postTokenBalances m))"

definition txPreBalances :: "ParsedTx \<Rightarrow> TokenBalance list" where
  "txPreBalances tx = (case meta tx of None \<Rightarrow> [] | Some m \<Rightarrow> orEmpty (preTokenBalances m))"

text \<open>The slots of a transaction that count, in the specification's words: the
  post-balance entries owned by the custodial address in the tracked asset whose
  \<^verbatim>\<open>postAmount\<close> is greater than the \<^verbatim>\<open>preAmount\<close> paired with it.\<close>

definition countedSlots :: "Constants \<Rightarrow> ParsedTx \<Rightarrow> TokenBalance list" where
  "countedSlots K tx =
     filter (\<lambda>post. qualifies K post
                   \<and> orZero (uiAmount post) > preAmountOf (txPreBalances tx) post)
       (txPostBalances tx)"

text \<open>Adding the deltas of the counted slots of a transaction to a running total, one
  after the other in the order of the post-balance list.\<close>

definition addDeposits :: "Constants \<Rightarrow> ParsedTx \<Rightarrow> real \<Rightarrow> real" where
  "addDeposits K tx tot =
     fold (\<lambda>post s. s + (orZero (uiAmount post) - preAmountOf (txPreBalances tx) post))
       (countedSlots K tx) tot"

text \<open>The deposit of one balance slot, in the specification's words:
  \<^verbatim>\<open>delta = postAmount - preAmount\<close>, counted when positive.\<close>

definition slotDeposit :: "TokenBalance list \<Rightarrow> TokenBalance \<Rightarrow> real" where
  "slotDeposit preBalances post =
     max 0 (orZero (uiAmount post) - preAmountOf preBalances post)"

subsection \<open>The caches the module can hold\<close>

text \<open>\<^verbatim>\<open>stakedAmountCache\<close> is private to the module (line 10): it starts empty and only
  calls of \<^verbatim>\<open>getUserStakedAmount\<close> change it, each with its own time, wallet address
  and answers of the connection.\<close>

inductive reachable :: "Constants \<Rightarrow> (string \<Rightarrow> bool) \<Rightarrow> cache \<Rightarrow> bool"
  for K :: Constants and validPublicKey :: "string \<Rightarrow> bool" where
  initial: "reachable K validPublicKey Map.empty"
| call: "reachable K validPublicKey c \<Longrightarrow>
         reachable K validPublicKey
           (fst (snd (getUserStakedAmount K validPublicKey connection now c walletAddress)))"

subsection \<open>Concrete inputs\<close>

definition exK :: Constants where
  "exK = \<lparr>CACHE_DURATION = 1000, INCUBATOR_WALLET = ''incubator'', USDT_MINT = ''usdt''\<rparr>"

text \<open>A stand-in for the \<^verbatim>\<open>PublicKey\<close> constructor: it rejects the empty string.\<close>

definition exValid :: "string \<Rightarrow> bool" where
  "exValid s = (s \<noteq> [])"

text \<open>A connection whose every request rejects.\<close>

definition exDown :: Connection where
  "exDown = \<lparr>getSignaturesForAddress = (\<lambda>a. Rejected), getParsedTransaction = (\<lambda>s. Rejected)\<rparr>"

definition slot :: "nat \<Rightarrow> string \<Rightarrow> real option \<Rightarrow> TokenBalance" where
  "slot i who amt = \<lparr>accountIndex = i, owner = Some who, mint = ''usdt'', uiAmount = amt\<rparr>"

definition exTx :: "string \<Rightarrow> string list \<Rightarrow> real \<Rightarrow> real \<Rightarrow> ParsedTx" where
  "exTx s keys preAmount postAmount =
     \<lparr>transaction_signatures = [s], accountKeys = keys,
      meta = Some \<lparr>postTokenBalances = Some [slot 1 ''incubator'' (Some postAmount)],
                   preTokenBalances = Some [slot 1 ''incubator'' (Some preAmount)]\<rparr>\<rparr>"

text \<open>The ledger of the specification's scenario: the incubator's slot goes 0 to 50 and
  50 to 120 in two transactions of user \<open>U\<close>, then 120 to 90 in one of somebody else.\<close>

definition exTx1 :: ParsedTx where "exTx1 = exTx ''s1'' [''U'', ''incubator''] 0 50"
definition exTx2 :: ParsedTx where "exTx2 = exTx ''s2'' [''U'', ''incubator''] 50 120"
definition exTx3 :: ParsedTx where "exTx3 = exTx ''s3'' [''V'', ''incubator''] 120 90"

definition exLedger :: Connection where
  "exLedger =
     \<lparr>getSignaturesForAddress = (\<lambda>a. Resolved [''s1'', ''s2'', ''s3'']),
      getParsedTransaction =
        (\<lambda>s. if s = ''s1'' then Resolved (Some exTx1)
             else if s = ''s2'' then Resolved (Some exTx2)
             else if s = ''s3'' then Resolved (Some exTx3)
             else Resolved None)\<rparr>"

text \<open>The same ledger with the second transaction listed twice.\<close>

definition exRepeat :: Connection where
  "exRepeat =
     \<lparr>getSignaturesForAddress = (\<lambda>a. Resolved [''s1'', ''s2'', ''s2'']),
      getParsedTransaction =
        (\<lambda>s. if s = ''s1'' then Resolved (Some exTx1)
             else if s = ''s2'' then Resolved (Some exTx2)
             else Resolved None)\<rparr>"

definition exEntry :: CacheEntry where
  "exEntry = \<lparr>amount = 70, timestamp = 0\<rparr>"

definition exEmpty :: cache where
  "exEmpty = Map.empty"

definition exCache :: cache where
  "exCache = exEmpty(''U'' \<mapsto> exEntry)"

text \<open>A transaction of user \<open>U\<close> with four slots: a deposit, a withdrawal, a no-op and
  a slot owned by somebody else.\<close>

definition exMetaMixed :: ParsedMeta where
  "exMetaMixed =
     \<lparr>postTokenBalances = Some [slot 1 ''incubator'' (Some 120), slot 2 ''incubator'' (Some 90),
                                slot 3 ''incubator'' (Some 90), slot 4 ''someone'' (Some 500)],
      preTokenBalances = Some [slot 1 ''incubator'' (Some 50), slot 2 ''incubator'' (Some 120),
                               slot 3 ''incubator'' (Some 90), slot 4 ''someone'' (Some 0)]\<rparr>"

definition exTxMixed :: ParsedTx where
  "exTxMixed =
     \<lparr>transaction_signatures = [''s4''], accountKeys = [''U'', ''incubator''],
      meta = Some exMetaMixed\<rparr>"

text \<open>A transaction of user \<open>U\<close> whose pre-balance entry for account index 1 stands
  second in its list and is owned by somebody else.\<close>

definition exMetaPair :: ParsedMeta where
  "exMetaPair =
     \<lparr>postTokenBalances = Some [slot 1 ''incubator'' (Some 50)],
      preTokenBalances = Some [slot 0 ''incubator'' (Some 20), slot 1 ''someone'' (Some 30)]\<rparr>"

definition exTxPair :: ParsedTx where
  "exTxPair =
     \<lparr>transaction_signatures = [''s5''], accountKeys = [''U'', ''incubator''],
      meta = Some exMetaPair\<rparr>"

section \<open>Lemmas\<close>

subsection \<open>The purge\<close>

lemma purgeExpired_keeps:
  "c w = Some e \<Longrightarrow> \<not> now - timestamp e > CACHE_DURATION K \<Longrightarrow> purgeExpired K now c w = Some e"
  by (simp add: purgeExpired_def)

lemma purgeExpired_Some:
  "purgeExpired K now c w = Some e \<Longrightarrow> c w = Some e \<and> now - timestamp e \<le> CACHE_DURATION K"
  by (auto simp: purgeExpired_def split: option.splits if_splits)

lemma purgeExpired_None:
  "c w = None \<Longrightarrow> purgeExpired K now c w = None"
  by (simp add: purgeExpired_def)

subsection \<open>Batches and the pipeline\<close>

lemma promiseAll_append:
  "promiseAll (xs @ ys) =
     (case promiseAll xs of
        Inl e \<Rightarrow> Inl e
      | Inr a \<Rightarrow> (case promiseAll ys of Inl e \<Rightarrow> Inl e | Inr b \<Rightarrow> Inr (a @ b)))"
  by (induction xs) (auto split: response.splits sum.splits)

lemma promiseAll_error: "promiseAll rs = Inl e \<Longrightarrow> e = SourceUnavailable"
  by (induction rs arbitrary: e) (auto split: response.splits sum.splits)

lemma promiseAll_Resolved: "promiseAll (map Resolved xs) = Inr xs"
  by (induction xs) auto

lemma promiseAll_Inr: "promiseAll rs = Inr xs \<Longrightarrow> rs = map Resolved xs"
  by (induction rs arbitrary: xs) (auto split: response.splits sum.splits)

lemma processBatches_fst:
  "fst (processBatches K connection w signatures i st) =
     (case promiseAll (map (getParsedTransaction connection) (drop i signatures)) of
        Inl e \<Rightarrow> Inl e
      | Inr transactions \<Rightarrow> Inr (fold (processTx K w) transactions st))"
proof (induction K connection w signatures i st rule: processBatches.induct)
  case (1 K connection w signatures i st)
  show ?case
  proof (cases "i < length signatures")
    case False
    then show ?thesis by (subst processBatches.simps) simp
  next
    case True
    let ?batch = "take batchSize (drop i signatures)"
    let ?rest = "drop (i + batchSize) signatures"
    have split: "drop i signatures = ?batch @ ?rest"
      by (metis add.commute append_take_drop_id drop_drop)
    show ?thesis
    proof (cases "promiseAll (map (getParsedTransaction connection) ?batch)")
      case (Inl e)
      then show ?thesis
        using True
        by (subst processBatches.simps, subst (2) split)
           (simp add: promiseAll_append)
    next
      case (Inr transactions)
      have IH: "fst (processBatches K connection w signatures (i + batchSize)
                       (fold (processTx K w) transactions st)) =
                (case promiseAll (map (getParsedTransaction connection) ?rest) of
                   Inl e \<Rightarrow> Inl e
                 | Inr ts \<Rightarrow> Inr (fold (processTx K w) ts (fold (processTx K w) transactions st)))"
        using "1.IH"[OF True refl refl Inr] .
      show ?thesis
        using True Inr IH
        by (subst processBatches.simps, subst (2) split)
           (simp add: promiseAll_append case_prod_beta split: sum.splits)
    qed
  qed
qed


lemma fetchPipeline_fst:
  "fst (fetchPipeline K validPublicKey connection w) =
     (if \<not> validPublicKey w then Inl InvalidAccount
      else case getSignaturesForAddress connection (INCUBATOR_WALLET K) of
             Rejected \<Rightarrow> Inl SourceUnavailable
           | Resolved signatures \<Rightarrow>
               (case promiseAll (map (getParsedTransaction connection) signatures) of
                  Inl e \<Rightarrow> Inl e
                | Inr transactions \<Rightarrow> Inr (aggregate K w transactions)))"
proof -
  have pb: "\<And>signatures. fst (processBatches K connection w signatures 0 (0, {})) =
     (case promiseAll (map (getParsedTransaction connection) signatures) of
        Inl e \<Rightarrow> Inl e
      | Inr transactions \<Rightarrow> Inr (fold (processTx K w) transactions (0, {})))"
    using processBatches_fst[of K connection w _ 0 "(0, {})"] by simp
  show ?thesis
  proof (cases "processBatches K connection w
                  (case getSignaturesForAddress connection (INCUBATOR_WALLET K) of
                     Rejected \<Rightarrow> [] | Resolved sigs \<Rightarrow> sigs) 0 (0, {})")
    case (Pair r calls)
    then show ?thesis
      using pb[of "case getSignaturesForAddress connection (INCUBATOR_WALLET K) of
                     Rejected \<Rightarrow> [] | Resolved sigs \<Rightarrow> sigs"]
      by (auto simp: fetchPipeline_def aggregate_def Let_def
               split: response.splits sum.splits prod.splits)
  qed
qed

lemma fetchPipeline_error:
  "fst (fetchPipeline K validPublicKey connection w) = Inl e \<Longrightarrow>
     e = InvalidAccount \<or> e = SourceUnavailable"
  by (auto simp: fetchPipeline_fst split: if_splits response.splits sum.splits
           dest: promiseAll_error)

lemma fetchPipeline_calls:
  "snd (fetchPipeline K validPublicKey connection w) = [] \<longleftrightarrow> \<not> validPublicKey w"
  by (auto simp: fetchPipeline_def Let_def split: response.splits sum.splits prod.splits)

lemma fetchPipeline_first_call:
  "validPublicKey w \<Longrightarrow>
     hd (snd (fetchPipeline K validPublicKey connection w)) = GetSignaturesForAddress (INCUBATOR_WALLET K)"
  by (auto simp: fetchPipeline_def Let_def split: response.splits sum.splits prod.splits)

subsection \<open>The aggregation loop\<close>

lemma processPost_eq:
  "processPost K preBalances post tot =
     tot + (if qualifies K post then slotDeposit preBalances post else 0)"
  by (simp add: processPost_def slotDeposit_def Let_def max_def)

lemma processPost_mono: "tot \<le> processPost K preBalances post tot"
  by (simp add: processPost_def Let_def)

lemma fold_processPost_mono: "tot \<le> fold (processPost K preBalances) posts tot"
proof (induction posts arbitrary: tot)
  case Nil
  then show ?case by simp
next
  case (Cons p posts)
  have "tot \<le> processPost K preBalances p tot" by (rule processPost_mono)
  also have "\<dots> \<le> fold (processPost K preBalances) posts (processPost K preBalances p tot)"
    by (rule Cons.IH)
  finally show ?case by simp
qed

text \<open>The loop of lines 69-81 adds the deltas of the counted entries, in list order.\<close>

lemma fold_processPost_counted:
  "fold (processPost K preBalances) posts tot =
     fold (\<lambda>post s. s + (orZero (uiAmount post) - preAmountOf preBalances post))
       (filter (\<lambda>post. qualifies K post
                      \<and> orZero (uiAmount post) > preAmountOf preBalances post) posts)
       tot"
  by (induction posts arbitrary: tot) (simp_all add: processPost_def Let_def)

lemma processTx_processed:
  "meta tx = Some m \<Longrightarrow> signature tx \<notin> P \<Longrightarrow>
     processTx K w (Some tx) (tot, P) =
       (if w \<in> set (accountKeys tx) then addDeposits K tx tot else tot,
        insert (signature tx) P)"
  by (simp add: processTx_def Let_def list_ex_iff addDeposits_def countedSlots_def
        txPostBalances_def txPreBalances_def fold_processPost_counted)

lemma processTx_skip:
  "meta tx = None \<or> signature tx \<in> P \<Longrightarrow> processTx K w (Some tx) (tot, P) = (tot, P)"
  by (auto simp: processTx_def split: option.splits)

lemma processTx_null: "processTx K w None st = st"
  by (simp add: processTx_def split: prod.splits)

lemma processTx_mono: "tot \<le> fst (processTx K w txo (tot, P))"
  by (simp add: processTx_def Let_def fold_processPost_mono split: option.splits)

text \<open>The whole loop: the transactions that get through lines 56 and 64, each adding the
  deltas of its counted slots, in order.\<close>

lemma fold_processTx:
  "fold (processTx K w) details (tot, P) =
     (fold (addDeposits K)
        (filter (\<lambda>t. w \<in> set (accountKeys t))
           (firstBySignature (filter (\<lambda>t. signature t \<notin> P) (withMeta details))))
        tot,
      P \<union> signature ` set (withMeta details))"
proof (induction details arbitrary: tot P)
  case Nil
  then show ?case by simp
next
  case (Cons a details)
  show ?case
  proof (cases a)
    case None
    then show ?thesis by (simp add: processTx_null Cons.IH)
  next
    case (Some tx)
    show ?thesis
    proof (cases "meta tx = None \<or> signature tx \<in> P")
      case True
      then show ?thesis
        using Some by (auto simp: processTx_skip Cons.IH)
    next
      case False
      then obtain m where m: "meta tx = Some m" and new: "signature tx \<notin> P" by auto
      show ?thesis
        using Some m new
        by (simp add: processTx_processed[OF m new] Cons.IH conj_commute)
    qed
  qed
qed

lemma aggregate_eq:
  "aggregate K w details = fold (addDeposits K) (processedDetails w details) 0"
  by (simp add: aggregate_def processedDetails_def fold_processTx)

lemma aggregate_nonneg: "0 \<le> aggregate K w details"
proof -
  have "tot \<le> fst (fold (processTx K w) details (tot, P))" for tot P
  proof (induction details arbitrary: tot P)
    case Nil
    then show ?case by simp
  next
    case (Cons a details)
    obtain t' P' where s: "processTx K w a (tot, P) = (t', P')"
      by (cases "processTx K w a (tot, P)")
    have "tot \<le> t'" using processTx_mono[of tot K w a P] s by simp
    also have "t' \<le> fst (fold (processTx K w) details (t', P'))" by (rule Cons.IH)
    finally show ?case by (simp add: s)
  qed
  then show ?thesis by (simp add: aggregate_def)
qed

subsection \<open>Finding the pre-balance entry\<close>

lemma find_first_match:
  "\<forall>b\<in>set xs. \<not> P b \<Longrightarrow> P x \<Longrightarrow> find P (xs @ x # ys) = Some x"
  by (induction xs) auto

lemma find_no_match: "\<forall>b\<in>set xs. \<not> P b \<Longrightarrow> find P xs = None"
  by (induction xs) auto

lemma find_distinct_key:
  "distinct (map f xs) \<Longrightarrow> x \<in> set xs \<Longrightarrow> find (\<lambda>b. f b = f x) xs = Some x"
  by (induction xs) (auto simp: image_iff)

subsection \<open>The entry point\<close>

lemma not_fresh_runs_pipeline:
  "\<not> isFresh K now (purgeExpired K now c w) \<Longrightarrow>
     snd (snd (getUserStakedAmount K v conn now c w)) = snd (fetchPipeline K v conn w)"
  by (cases "fetchPipeline K v conn w")
     (auto simp: getUserStakedAmount_def Let_def split: sum.splits option.splits)

text \<open>The cache is written only for a wallet address that passed validation, so a
  cache that starts empty never holds an entry for an ill-formed address.\<close>

lemma cache_keys_valid_preserved:
  assumes "\<forall>k\<in>dom c. v k"
    and "getUserStakedAmount K v conn now c w = (r, c', calls)"
  shows "\<forall>k\<in>dom c'. v k"
proof -
  have purge: "\<forall>k\<in>dom (purgeExpired K now c). v k"
    using assms(1) by (auto dest: purgeExpired_Some)
  have valid: "v w" if "fst (fetchPipeline K v conn w) = Inr t" for t
    using that by (auto simp: fetchPipeline_fst split: if_splits)
  show ?thesis
    using assms(2) purge valid
    by (cases "fetchPipeline K v conn w")
       (auto simp: getUserStakedAmount_def Let_def split: sum.splits option.splits if_splits)
qed

text \<open>An entry older than \<^verbatim>\<open>CACHE_DURATION\<close> is deleted by the purge of the same call, so
  the \<^verbatim>\<open>catch\<close> block no longer finds it.\<close>

lemma expired_entry_purged_before_fallback:
  assumes "c w = Some entry" and "now - timestamp entry > CACHE_DURATION K"
    and "fst (fetchPipeline K v conn w) = Inl e"
  shows "fst (getUserStakedAmount K v conn now c w) = Inl e"
proof -
  have "purgeExpired K now c w = None"
    using assms(1,2) by (simp add: purgeExpired_def)
  then show ?thesis
    using assms(3)
    by (cases "fetchPipeline K v conn w")
       (simp add: getUserStakedAmount_def isFresh_def)
qed

text \<open>The call as a case distinction on the purged cache and the pipeline's result.\<close>

lemma getUserStakedAmount_cases:
  "getUserStakedAmount K v conn now c w =
     (if isFresh K now (purgeExpired K now c w)
      then (Inr (amount (the (purgeExpired K now c w))), purgeExpired K now c, [])
      else case fst (fetchPipeline K v conn w) of
             Inr tot \<Rightarrow>
               (Inr tot, (purgeExpired K now c)(w \<mapsto> \<lparr>amount = tot, timestamp = now\<rparr>),
                snd (fetchPipeline K v conn w))
           | Inl e \<Rightarrow>
               (case purgeExpired K now c w of
                  Some entry \<Rightarrow> Inr (amount entry)
                | None \<Rightarrow> Inl e,
                purgeExpired K now c, snd (fetchPipeline K v conn w)))"
  by (cases "fetchPipeline K v conn w")
     (auto simp: getUserStakedAmount_def Let_def split: sum.splits option.splits)

text \<open>An ill-formed wallet address: no request is issued, and the result is decided by
  the purged cache alone.\<close>

lemma invalid_account_no_network:
  assumes "\<not> validPublicKey walletAddress"
  shows "getUserStakedAmount K validPublicKey connection now stakedAmountCache walletAddress =
           ((case purgeExpired K now stakedAmountCache walletAddress of
               None \<Rightarrow> Inl InvalidAccount
             | Some entry \<Rightarrow> Inr (amount entry)),
            purgeExpired K now stakedAmountCache,
            [])"
  using assms
  by (simp add: getUserStakedAmount_def fetchPipeline_def isFresh_def Let_def split: option.splits)

lemma reachable_keys_valid:
  "reachable K validPublicKey c \<Longrightarrow> \<forall>k\<in>dom c. validPublicKey k"
proof (induction rule: reachable.induct)
  case initial
  then show ?case by simp
next
  case (call c connection now walletAddress)
  obtain r c' calls where run:
    "getUserStakedAmount K validPublicKey connection now c walletAddress = (r, c', calls)"
    by (cases "getUserStakedAmount K validPublicKey connection now c walletAddress")
  from cache_keys_valid_preserved[OF call.IH run] show ?case
    by (simp add: run)
qed

subsection \<open>Runs on concrete inputs\<close>

text \<open>A first call for user \<open>U\<close> on the scenario's ledger: three signatures, one batch,
  four requests. The first transaction adds 50 and puts \<^verbatim>\<open>undefined\<close> into
  \<^verbatim>\<open>processedTxs\<close>; line 56 then skips the other two, and 50 is written to the cache.\<close>

lemma exLedger_run:
  "getUserStakedAmount exK exValid exLedger 5000 exEmpty ''U'' =
     (Inr 50, (purgeExpired exK 5000 exEmpty)(''U'' \<mapsto> \<lparr>amount = 50, timestamp = 5000\<rparr>),
      [GetSignaturesForAddress ''incubator'', GetParsedTransaction ''s1'',
       GetParsedTransaction ''s2'', GetParsedTransaction ''s3''])"
  by (simp add: getUserStakedAmount_def purgeExpired_def isFresh_def fetchPipeline_def
        processBatches.simps exK_def exValid_def exLedger_def exEmpty_def
        batchSize_def processTx_def exTx1_def exTx2_def exTx3_def exTx_def slot_def
        processPost_def qualifies_def preAmountOf_def orZero_def orEmpty_def signature_def)

text \<open>A call at time 1000 with the entry \<open>(70, 0)\<close> and a connection that rejects: the
  entry is exactly as old as the TTL, so it is neither purged nor fresh, and the
  \<^verbatim>\<open>catch\<close> block returns its amount.\<close>

lemma exDown_run:
  "getUserStakedAmount exK exValid exDown 1000 exCache ''U'' =
     (Inr 70, purgeExpired exK 1000 exCache, [GetSignaturesForAddress ''incubator''])"
  by (simp add: getUserStakedAmount_def purgeExpired_def isFresh_def fetchPipeline_def
        exK_def exValid_def exDown_def exEmpty_def exCache_def exEntry_def)

section \<open>The claims\<close>

subsection \<open>C1: stale fallback\<close>

text \<open>
  C1 states that after a failing fetch pipeline a prior cache entry of the user, even
  one older than the TTL, is returned instead of the failure, despite the purge at the
  start of the call. The comment at line 96 says the same (\<^verbatim>\<open>Return cached value if
  available, even if expired\<close>), but the loop of lines 16-20 has deleted every entry
  older than \<^verbatim>\<open>CACHE_DURATION\<close> by then. Evaluated: the user's entry \<open>(70, 0)\<close>, a TTL of
  1000, a call at time 1001, a connection that rejects. The call fails with the
  connection's error; the claim says it returns 70.
\<close>

theorem C1_expired_entry_not_served:
  "exCache ''U'' = Some exEntry \<and>
   CACHE_DURATION exK < 1001 - timestamp exEntry \<and>
   fst (fetchPipeline exK exValid exDown ''U'') = Inl SourceUnavailable \<and>
   fst (getUserStakedAmount exK exValid exDown 1001 exCache ''U'') = Inl SourceUnavailable"
  by (simp add: getUserStakedAmount_def fetchPipeline_def purgeExpired_def isFresh_def
        exCache_def exEmpty_def exEntry_def exK_def exValid_def exDown_def)

subsection \<open>C2: an ill-formed wallet address\<close>

text \<open>
  C2: for every ill-formed wallet address, on every cache the module can hold, the call
  fails with \<open>InvalidAccount\<close> and issues no network request. The error passes through
  the \<^verbatim>\<open>catch\<close> block, which finds no entry to return: the cache is written only at
  line 87, after \<^verbatim>\<open>new PublicKey\<close> succeeded at line 29, so it never holds an entry for
  an ill-formed address, whatever else it holds.
\<close>

theorem C2_invalid_account_reaches_caller:
  assumes "reachable K validPublicKey stakedAmountCache"
    and "\<not> validPublicKey walletAddress"
  shows "getUserStakedAmount K validPublicKey connection now stakedAmountCache walletAddress =
           (Inl InvalidAccount, purgeExpired K now stakedAmountCache, [])
         \<and> stakedAmountCache walletAddress = None"
proof -
  have none: "stakedAmountCache walletAddress = None"
    using reachable_keys_valid[OF assms(1)] assms(2) by (auto simp: dom_def)
  then have "purgeExpired K now stakedAmountCache walletAddress = None"
    by (rule purgeExpired_None)
  then show ?thesis
    using invalid_account_no_network
            [of validPublicKey walletAddress K connection now stakedAmountCache]
          assms(2) none
    by simp
qed

text \<open>Witness for C2: the empty address, against the cache left by a successful call for
  user \<open>U\<close> and a connection that would answer.\<close>

theorem C2_witness:
  "reachable exK exValid
     (fst (snd (getUserStakedAmount exK exValid exLedger 5000 exEmpty ''U'')))
   \<and> \<not> exValid ''''
   \<and> getUserStakedAmount exK exValid exLedger 5001
        (fst (snd (getUserStakedAmount exK exValid exLedger 5000 exEmpty ''U''))) '''' =
       (Inl InvalidAccount,
        purgeExpired exK 5001
          (fst (snd (getUserStakedAmount exK exValid exLedger 5000 exEmpty ''U''))),
        [])"
proof -
  have r: "reachable exK exValid
             (fst (snd (getUserStakedAmount exK exValid exLedger 5000 exEmpty ''U'')))"
    unfolding exEmpty_def by (rule reachable.call) (rule reachable.initial)
  have v: "\<not> exValid ''''" by (simp add: exValid_def)
  show ?thesis
    using C2_invalid_account_reaches_caller[OF r v, of exLedger 5001] r v by simp
qed

subsection \<open>C3: the cache is written only after a successful run\<close>

text \<open>
  C3: a call changes no entry of another key beyond the purge; when the fetch pipeline
  fails, the cache it leaves is the purged one, with no write; when the user's entry
  differs from the purged one, the address is valid, every request resolved, and the
  entry holds the total of the aggregation over all fetched transactions, stamped
  \<open>now\<close>, which is also the value returned; and every successful run of the pipeline
  writes its total.
\<close>

theorem C3_cache_written_only_after_success:
  assumes "getUserStakedAmount K validPublicKey connection now stakedAmountCache walletAddress =
             (r, cache', calls)"
  shows "(\<forall>key. key \<noteq> walletAddress \<longrightarrow> cache' key = purgeExpired K now stakedAmountCache key)
       \<and> ((\<exists>e. fst (fetchPipeline K validPublicKey connection walletAddress) = Inl e)
            \<longrightarrow> cache' = purgeExpired K now stakedAmountCache)
       \<and> (cache' walletAddress \<noteq> purgeExpired K now stakedAmountCache walletAddress \<longrightarrow>
            validPublicKey walletAddress \<and>
            (\<exists>signatures transactions.
               getSignaturesForAddress connection (INCUBATOR_WALLET K) = Resolved signatures
             \<and> map (getParsedTransaction connection) signatures = map Resolved transactions
             \<and> r = Inr (aggregate K walletAddress transactions)
             \<and> cache' walletAddress =
                 Some \<lparr>amount = aggregate K walletAddress transactions, timestamp = now\<rparr>))
       \<and> (\<forall>tot. \<not> isFresh K now (purgeExpired K now stakedAmountCache walletAddress)
                \<and> fst (fetchPipeline K validPublicKey connection walletAddress) = Inr tot \<longrightarrow>
              r = Inr tot \<and> cache' walletAddress = Some \<lparr>amount = tot, timestamp = now\<rparr>)"
proof (intro conjI allI impI)
  fix tot
  assume "\<not> isFresh K now (purgeExpired K now stakedAmountCache walletAddress)
            \<and> fst (fetchPipeline K validPublicKey connection walletAddress) = Inr tot"
  then show "r = Inr tot" and "cache' walletAddress = Some \<lparr>amount = tot, timestamp = now\<rparr>"
    using assms by (auto simp: getUserStakedAmount_cases)
next
  fix key assume "key \<noteq> walletAddress"
  then show "cache' key = purgeExpired K now stakedAmountCache key"
    using assms by (auto simp: getUserStakedAmount_cases split: if_splits sum.splits)
next
  assume "\<exists>e. fst (fetchPipeline K validPublicKey connection walletAddress) = Inl e"
  then show "cache' = purgeExpired K now stakedAmountCache"
    using assms by (auto simp: getUserStakedAmount_cases split: if_splits)
next
  assume changed: "cache' walletAddress \<noteq> purgeExpired K now stakedAmountCache walletAddress"
  then obtain tot where ok: "fst (fetchPipeline K validPublicKey connection walletAddress) = Inr tot"
    and r: "r = Inr tot"
    and c': "cache' walletAddress = Some \<lparr>amount = tot, timestamp = now\<rparr>"
    using assms by (auto simp: getUserStakedAmount_cases split: if_splits sum.splits)
  show "validPublicKey walletAddress"
    using ok by (auto simp: fetchPipeline_fst split: if_splits)
  from ok obtain signatures transactions where
    "getSignaturesForAddress connection (INCUBATOR_WALLET K) = Resolved signatures"
    "promiseAll (map (getParsedTransaction connection) signatures) = Inr transactions"
    "tot = aggregate K walletAddress transactions"
    by (auto simp: fetchPipeline_fst split: if_splits response.splits sum.splits)
  then show "\<exists>signatures transactions.
               getSignaturesForAddress connection (INCUBATOR_WALLET K) = Resolved signatures
             \<and> map (getParsedTransaction connection) signatures = map Resolved transactions
             \<and> r = Inr (aggregate K walletAddress transactions)
             \<and> cache' walletAddress =
                 Some \<lparr>amount = aggregate K walletAddress transactions, timestamp = now\<rparr>"
    using r c' by (auto dest: promiseAll_Inr)
qed

text \<open>Witness for C3: the successful first call on the scenario's ledger writes the
  entry; the call against the rejecting connection leaves the purged cache.\<close>

theorem C3_witness:
  "(fst (snd (getUserStakedAmount exK exValid exLedger 5000 exEmpty ''U''))) ''U''
     \<noteq> purgeExpired exK 5000 exEmpty ''U''
   \<and> (\<exists>signatures transactions.
         getSignaturesForAddress exLedger (INCUBATOR_WALLET exK) = Resolved signatures
       \<and> map (getParsedTransaction exLedger) signatures = map Resolved transactions
       \<and> fst (getUserStakedAmount exK exValid exLedger 5000 exEmpty ''U'')
           = Inr (aggregate exK ''U'' transactions)
       \<and> (fst (snd (getUserStakedAmount exK exValid exLedger 5000 exEmpty ''U''))) ''U''
           = Some \<lparr>amount = aggregate exK ''U'' transactions, timestamp = 5000\<rparr>)
   \<and> fst (snd (getUserStakedAmount exK exValid exDown 1000 exCache ''U''))
       = purgeExpired exK 1000 exCache"
proof -
  have down: "fst (fetchPipeline exK exValid exDown ''U'') = Inl SourceUnavailable"
    by (simp add: fetchPipeline_def exValid_def exDown_def)
  have changed: "((purgeExpired exK 5000 exEmpty)(''U'' \<mapsto> \<lparr>amount = 50, timestamp = 5000\<rparr>)) ''U''
                   \<noteq> purgeExpired exK 5000 exEmpty ''U''"
    by (simp add: purgeExpired_def exEmpty_def)
  show ?thesis
    using C3_cache_written_only_after_success[OF exLedger_run]
          C3_cache_written_only_after_success[OF exDown_run]
          down changed
    by (simp add: exLedger_run exDown_run)
qed

subsection \<open>C4: a fresh entry is returned without a fetch\<close>

text \<open>
  C4: for every user and every time \<open>now\<close>, if the cache holds an entry of the user with
  \<open>now - timestamp < TTL\<close>, the call returns the entry's amount and issues no network
  request at all; the cache is the purged one.
\<close>

theorem C4_fresh_entry_returned_without_fetch:
  assumes "stakedAmountCache walletAddress = Some entry"
    and "now - timestamp entry < CACHE_DURATION K"
  shows "getUserStakedAmount K validPublicKey connection now stakedAmountCache walletAddress =
           (Inr (amount entry), purgeExpired K now stakedAmountCache, [])"
proof -
  have "purgeExpired K now stakedAmountCache walletAddress = Some entry"
    using assms by (intro purgeExpired_keeps) auto
  then show ?thesis
    using assms(2) by (simp add: getUserStakedAmount_def isFresh_def)
qed

text \<open>Witness for C4: the entry \<open>(70, 0)\<close> at time 999, with a connection that would
  reject every request.\<close>

theorem C4_witness:
  "exCache ''U'' = Some exEntry \<and> 999 - timestamp exEntry < CACHE_DURATION exK \<and>
   getUserStakedAmount exK exValid exDown 999 exCache ''U'' =
     (Inr 70, purgeExpired exK 999 exCache, [])"
  using C4_fresh_entry_returned_without_fetch
          [of exCache "''U''" exEntry 999 exK exValid exDown]
  by (simp add: exCache_def exEntry_def exK_def)

subsection \<open>C5: failure without a cache entry\<close>

text \<open>
  C5 as stated, false: with an empty cache and a connection that rejects, the call does
  not fail with \<open>NoDataAvailable\<close>; line 102 rethrows the error it caught.
\<close>

theorem C5_counterexample:
  "exEmpty ''U'' = None \<and>
   fst (fetchPipeline exK exValid exDown ''U'') = Inl SourceUnavailable \<and>
   fst (getUserStakedAmount exK exValid exDown 1001 exEmpty ''U'') \<noteq> Inl NoDataAvailable"
  by (simp add: getUserStakedAmount_def fetchPipeline_def purgeExpired_def isFresh_def
        exEmpty_def exK_def exValid_def exDown_def)

text \<open>
  C5 as amended: for every user without a cache entry and every failing run of the fetch
  pipeline, the call fails with the very error the pipeline raised, which is
  \<open>InvalidAccount\<close> or \<open>SourceUnavailable\<close>.
\<close>

theorem C5_failure_without_entry_rethrows:
  assumes "fst (fetchPipeline K validPublicKey connection walletAddress) = Inl e"
    and "stakedAmountCache walletAddress = None"
  shows "fst (getUserStakedAmount K validPublicKey connection now stakedAmountCache walletAddress) = Inl e
         \<and> (e = InvalidAccount \<or> e = SourceUnavailable)"
proof -
  have "purgeExpired K now stakedAmountCache walletAddress = None"
    using assms(2) by (rule purgeExpired_None)
  then have "fst (getUserStakedAmount K validPublicKey connection now stakedAmountCache walletAddress) = Inl e"
    using assms(1)
    by (cases "fetchPipeline K validPublicKey connection walletAddress")
       (simp add: getUserStakedAmount_def isFresh_def)
  then show ?thesis
    using fetchPipeline_error[OF assms(1)] by simp
qed

text \<open>Witness for C5: the empty cache and a connection that rejects.\<close>

theorem C5_witness:
  "fst (fetchPipeline exK exValid exDown ''U'') = Inl SourceUnavailable \<and>
   exEmpty ''U'' = None \<and>
   fst (getUserStakedAmount exK exValid exDown 1001 exEmpty ''U'') = Inl SourceUnavailable"
proof -
  have p: "fst (fetchPipeline exK exValid exDown ''U'') = Inl SourceUnavailable"
    by (simp add: fetchPipeline_def exValid_def exDown_def)
  have n: "exEmpty ''U'' = None" by (simp add: exEmpty_def)
  show ?thesis
    using C5_failure_without_entry_rethrows
            [of exK exValid exDown "''U''" SourceUnavailable exEmpty 1001] p n
    by simp
qed

subsection \<open>C6: a repeated identifier\<close>

text \<open>
  C6 states that a detail whose identifier is repeated is counted exactly once. Lines
  39 and 56-57 are written to do that, but the key they use, \<^verbatim>\<open>tx.signature\<close>, is
  \<^verbatim>\<open>undefined\<close> for every detail, so after the first detail with \<^verbatim>\<open>meta\<close> every other one
  is skipped. Evaluated: the details of signatures \<open>s1\<close>, \<open>s2\<close>, \<open>s2\<close> for user \<open>U\<close>, the
  first worth 50, the second worth 70. The total is 50: the repeated detail is counted
  not once but never.
\<close>

theorem C6_repeated_detail_never_counted:
  "transaction_signatures exTx1 = [''s1''] \<and> transaction_signatures exTx2 = [''s2'']
   \<and> txContribution exK ''U'' exTx1 = 50
   \<and> txContribution exK ''U'' exTx2 = 70
   \<and> aggregate exK ''U'' [Some exTx1, Some exTx2, Some exTx2] = 50
   \<and> fst (getUserStakedAmount exK exValid exRepeat 5000 exEmpty ''U'') = Inr 50"
  by (simp add: getUserStakedAmount_def purgeExpired_def isFresh_def fetchPipeline_def
        processBatches.simps exK_def exValid_def exRepeat_def exEmpty_def
        batchSize_def aggregate_def txContribution_def processTx_def
        exTx1_def exTx2_def exTx_def slot_def
        processPost_def qualifies_def preAmountOf_def orZero_def orEmpty_def signature_def)

subsection \<open>C7: a transaction without the user contributes nothing\<close>

text \<open>
  C7: when the queried wallet address is not among the transaction's account keys,
  processing the transaction leaves the running total as it is, whatever its balance
  records say; its contribution is zero, and appending it to a list of details does not
  change the aggregate.
\<close>

theorem C7_non_participant_contributes_zero:
  assumes "walletAddress \<notin> set (accountKeys tx)"
  shows "fst (processTx K walletAddress (Some tx) (tot, processedTxs)) = tot
       \<and> txContribution K walletAddress tx = 0
       \<and> aggregate K walletAddress (details @ [Some tx]) = aggregate K walletAddress details"
proof -
  have nope: "\<not> list_ex (\<lambda>key. key = walletAddress) (accountKeys tx)"
    using assms by (auto simp: list_ex_iff)
  have step: "fst (processTx K walletAddress (Some tx) (t, P)) = t" for t P
    using nope by (simp add: processTx_def Let_def split: option.splits)
  have "aggregate K walletAddress (details @ [Some tx]) = aggregate K walletAddress details"
    unfolding aggregate_def
    by (cases "fold (processTx K walletAddress) details (0, {})") (simp add: step)
  then show ?thesis
    using step by (simp add: txContribution_def)
qed

text \<open>Witness for C7: the scenario's first transaction credits 50 for user \<open>U\<close> and
  nothing for user \<open>V\<close>, who is not among its account keys.\<close>

theorem C7_witness:
  "''V'' \<notin> set (accountKeys exTx1)
   \<and> txContribution exK ''U'' exTx1 = 50
   \<and> fst (processTx exK ''V'' (Some exTx1) (7, {})) = 7
   \<and> txContribution exK ''V'' exTx1 = 0"
proof -
  have n: "''V'' \<notin> set (accountKeys exTx1)"
    by (simp add: exTx1_def exTx_def)
  have u: "txContribution exK ''U'' exTx1 = 50"
    by (simp add: txContribution_def processTx_def exK_def exTx1_def exTx_def
          slot_def processPost_def qualifies_def preAmountOf_def orZero_def orEmpty_def)
  show ?thesis
    using C7_non_participant_contributes_zero[of "''V''" exTx1 exK 7 "{}"] n u by simp
qed

subsection \<open>C8: only a positive delta counts\<close>

text \<open>
  C8: a post-balance entry adds \<open>postAmount - preAmount\<close> to the total when it
  qualifies and \<open>postAmount > preAmount\<close>, and leaves the total as it is otherwise. A
  transaction that gets through lines 56 and 64 adds exactly the deltas of its counted
  slots, that is of its qualifying post-balance entries with \<open>postAmount > preAmount\<close>
  against its own pre-balances, one after the other; the aggregate over a list of
  details is these additions over the processed details, from 0. No entry and no
  transaction lowers the running total, and the aggregate is never negative.
\<close>

theorem C8_only_positive_delta_counts:
  "processPost K preBalances post tot =
     (if qualifies K post \<and> orZero (uiAmount post) > preAmountOf preBalances post
      then tot + (orZero (uiAmount post) - preAmountOf preBalances post)
      else tot)
   \<and> tot \<le> processPost K preBalances post tot
   \<and> (meta tx = Some m \<and> signature tx \<notin> processedTxs
        \<and> walletAddress \<in> set (accountKeys tx) \<longrightarrow>
        fst (processTx K walletAddress (Some tx) (tot, processedTxs)) =
          fold (\<lambda>p s. s + (orZero (uiAmount p) - preAmountOf (orEmpty (preTokenBalances m)) p))
            (filter (\<lambda>p. qualifies K p
                        \<and> orZero (uiAmount p) > preAmountOf (orEmpty (preTokenBalances m)) p)
               (orEmpty (postTokenBalances m)))
            tot)
   \<and> tot \<le> fst (processTx K walletAddress txo (tot, processedTxs))
   \<and> aggregate K walletAddress details
       = fold (addDeposits K) (processedDetails walletAddress details) 0
   \<and> addDeposits K tx tot =
       fold (\<lambda>p s. s + (orZero (uiAmount p) - preAmountOf (txPreBalances tx) p))
         (filter (\<lambda>p. qualifies K p \<and> orZero (uiAmount p) > preAmountOf (txPreBalances tx) p)
            (txPostBalances tx))
         tot
   \<and> 0 \<le> aggregate K walletAddress details"
proof -
  have one: "meta tx = Some m \<and> signature tx \<notin> processedTxs
        \<and> walletAddress \<in> set (accountKeys tx) \<longrightarrow>
        fst (processTx K walletAddress (Some tx) (tot, processedTxs)) =
          fold (\<lambda>p s. s + (orZero (uiAmount p) - preAmountOf (orEmpty (preTokenBalances m)) p))
            (filter (\<lambda>p. qualifies K p
                        \<and> orZero (uiAmount p) > preAmountOf (orEmpty (preTokenBalances m)) p)
               (orEmpty (postTokenBalances m)))
            tot"
    by (simp add: processTx_def Let_def list_ex_iff fold_processPost_counted)
  show ?thesis
    using one processTx_mono[of tot K walletAddress txo processedTxs]
          aggregate_nonneg[of K walletAddress details]
          aggregate_eq[of K walletAddress details]
    by (simp add: processPost_def Let_def addDeposits_def countedSlots_def)
qed

text \<open>Witness for C8: one transaction of user \<open>U\<close> with a deposit (50 to 120), a
  withdrawal (120 to 90), a no-op and a slot of somebody else; it adds 70.\<close>

theorem C8_witness:
  "meta exTxMixed = Some exMetaMixed \<and> signature exTxMixed \<notin> {}
   \<and> ''U'' \<in> set (accountKeys exTxMixed)
   \<and> fst (processTx exK ''U'' (Some exTxMixed) (5, {})) = 75
   \<and> aggregate exK ''U'' [Some exTxMixed] = 70"
proof -
  have m: "meta exTxMixed = Some exMetaMixed" by (simp add: exTxMixed_def)
  have k: "''U'' \<in> set (accountKeys exTxMixed)" by (simp add: exTxMixed_def)
  have a: "aggregate exK ''U'' [Some exTxMixed] = 70"
    by (simp add: aggregate_def processTx_def exTxMixed_def exMetaMixed_def exK_def slot_def
          processPost_def qualifies_def preAmountOf_def orZero_def orEmpty_def)
  show ?thesis
    using C8_only_positive_delta_counts
            [where K = exK and tx = exTxMixed and m = exMetaMixed and processedTxs = "{}"
               and walletAddress = "''U''" and tot = 5, THEN conjunct2, THEN conjunct2,
             THEN conjunct1]
          m k a
    by (simp add: exMetaMixed_def exK_def slot_def qualifies_def preAmountOf_def
          orZero_def orEmpty_def)
qed

subsection \<open>C9: the pre-balance is matched by account index\<close>

text \<open>
  C9: in a transaction that gets through lines 56 and 64, each post-balance entry of the
  transaction is processed against the pre-balances of the same transaction, in list
  order. For an entry owned by the incubator wallet in the tracked mint, the amount
  added is the positive part of its amount minus that of the first pre-balance entry
  with the same \<^verbatim>\<open>accountIndex\<close>, wherever that entry stands in the list and whoever owns
  it; with distinct account indices it is the one entry with that index. When there is
  no such entry the pre-amount is zero, and a \<^verbatim>\<open>null\<close> amount counts as zero on either
  side.
\<close>

theorem C9_pre_balance_matched_by_accountIndex:
  assumes "meta tx = Some m"
    and "signature tx \<notin> processedTxs"
    and "walletAddress \<in> set (accountKeys tx)"
    and "orEmpty (postTokenBalances m) = earlier @ post # later"
    and "preBalances = orEmpty (preTokenBalances m)"
    and "qualifies K post"
  shows "((\<forall>b\<in>set preBalances. accountIndex b \<noteq> accountIndex post) \<longrightarrow>
            fst (processTx K walletAddress (Some tx) (tot, processedTxs)) =
              fold (processPost K preBalances) later
                (fold (processPost K preBalances) earlier tot
                   + max 0 (orZero (uiAmount post))))
       \<and> (preBalances = before @ pre # after
            \<and> (\<forall>b\<in>set before. accountIndex b \<noteq> accountIndex post)
            \<and> accountIndex pre = accountIndex post \<longrightarrow>
            fst (processTx K walletAddress (Some tx) (tot, processedTxs)) =
              fold (processPost K preBalances) later
                (fold (processPost K preBalances) earlier tot
                   + max 0 (orZero (uiAmount post) - orZero (uiAmount pre))))
       \<and> (distinct (map accountIndex preBalances) \<and> pre \<in> set preBalances
            \<and> accountIndex pre = accountIndex post \<longrightarrow>
            fst (processTx K walletAddress (Some tx) (tot, processedTxs)) =
              fold (processPost K preBalances) later
                (fold (processPost K preBalances) earlier tot
                   + max 0 (orZero (uiAmount post) - orZero (uiAmount pre))))
       \<and> orZero None = 0"
proof -
  have run: "fst (processTx K walletAddress (Some tx) (tot, processedTxs)) =
               fold (processPost K preBalances) later
                 (processPost K preBalances post (fold (processPost K preBalances) earlier tot))"
    using assms(1-5) by (simp add: processTx_def Let_def list_ex_iff)
  have step: "processPost K preBalances post s = s + slotDeposit preBalances post" for s
    using assms(6) by (simp add: processPost_eq)
  show ?thesis
  proof (intro conjI impI)
    assume "\<forall>b\<in>set preBalances. accountIndex b \<noteq> accountIndex post"
    then have "find (\<lambda>b. accountIndex b = accountIndex post) preBalances = None"
      by (intro find_no_match) simp
    then show "fst (processTx K walletAddress (Some tx) (tot, processedTxs)) =
              fold (processPost K preBalances) later
                (fold (processPost K preBalances) earlier tot
                   + max 0 (orZero (uiAmount post)))"
      by (simp add: run step slotDeposit_def preAmountOf_def)
  next
    assume a: "preBalances = before @ pre # after
            \<and> (\<forall>b\<in>set before. accountIndex b \<noteq> accountIndex post)
            \<and> accountIndex pre = accountIndex post"
    then have "find (\<lambda>b. accountIndex b = accountIndex post) (before @ pre # after) = Some pre"
      by (intro find_first_match) simp_all
    then have "find (\<lambda>b. accountIndex b = accountIndex post) preBalances = Some pre"
      using a by simp
    then show "fst (processTx K walletAddress (Some tx) (tot, processedTxs)) =
              fold (processPost K preBalances) later
                (fold (processPost K preBalances) earlier tot
                   + max 0 (orZero (uiAmount post) - orZero (uiAmount pre)))"
      by (simp add: run step slotDeposit_def preAmountOf_def)
  next
    assume a: "distinct (map accountIndex preBalances) \<and> pre \<in> set preBalances
            \<and> accountIndex pre = accountIndex post"
    then have "find (\<lambda>b. accountIndex b = accountIndex pre) preBalances = Some pre"
      by (intro find_distinct_key) simp_all
    then have "find (\<lambda>b. accountIndex b = accountIndex post) preBalances = Some pre"
      using a by simp
    then show "fst (processTx K walletAddress (Some tx) (tot, processedTxs)) =
              fold (processPost K preBalances) later
                (fold (processPost K preBalances) earlier tot
                   + max 0 (orZero (uiAmount post) - orZero (uiAmount pre)))"
      by (simp add: run step slotDeposit_def preAmountOf_def)
  next
    show "orZero None = 0" by (simp add: orZero_def)
  qed
qed

text \<open>Witness for C9: a transaction of user \<open>U\<close> whose one post-balance entry (index 1,
  amount 50) has its pre-balance entry (index 1, amount 30, owned by somebody else)
  second in the pre-balance list; from a total of 5 it gives 25.\<close>

theorem C9_witness:
  "meta exTxPair = Some exMetaPair \<and> signature exTxPair \<notin> {}
   \<and> ''U'' \<in> set (accountKeys exTxPair)
   \<and> orEmpty (postTokenBalances exMetaPair) = [] @ slot 1 ''incubator'' (Some 50) # []
   \<and> qualifies exK (slot 1 ''incubator'' (Some 50))
   \<and> orEmpty (preTokenBalances exMetaPair)
       = [slot 0 ''incubator'' (Some 20)] @ slot 1 ''someone'' (Some 30) # []
   \<and> fst (processTx exK ''U'' (Some exTxPair) (5, {})) = 25"
proof -
  have m: "meta exTxPair = Some exMetaPair" by (simp add: exTxPair_def)
  have s: "signature exTxPair \<notin> {}" by simp
  have k: "''U'' \<in> set (accountKeys exTxPair)" by (simp add: exTxPair_def)
  have p: "orEmpty (postTokenBalances exMetaPair) = [] @ slot 1 ''incubator'' (Some 50) # []"
    by (simp add: exMetaPair_def orEmpty_def)
  have b: "orEmpty (preTokenBalances exMetaPair)
             = [slot 0 ''incubator'' (Some 20)] @ slot 1 ''someone'' (Some 30) # []"
    by (simp add: exMetaPair_def orEmpty_def)
  have q: "qualifies exK (slot 1 ''incubator'' (Some 50))"
    by (simp add: qualifies_def exK_def slot_def)
  show ?thesis
    using C9_pre_balance_matched_by_accountIndex
            [OF m s k p refl q, where before = "[slot 0 ''incubator'' (Some 20)]"
               and pre = "slot 1 ''someone'' (Some 30)" and after = "[]" and tot = 5,
             THEN conjunct2, THEN conjunct1]
          m s k p b q
    by (simp add: slot_def orZero_def)
qed

subsection \<open>C10: the fallback leaves the entry as it is\<close>

text \<open>
  C10: when the pipeline fails and an entry of the user that is not fresh is left after
  the purge, the call returns the entry's amount, and the cache it leaves is the purged
  one, with the user's entry as it was before the call (amount and timestamp). A later
  call at any time at which the entry is no longer fresh runs the fetch pipeline again:
  its requests are the pipeline's, starting with the signature request when the address
  is valid.
\<close>

theorem C10_fallback_leaves_entry_untouched:
  assumes "fst (fetchPipeline K validPublicKey connection walletAddress) = Inl e"
    and "purgeExpired K now stakedAmountCache walletAddress = Some entry"
    and "\<not> isFresh K now (Some entry)"
  shows "getUserStakedAmount K validPublicKey connection now stakedAmountCache walletAddress =
           (Inr (amount entry), purgeExpired K now stakedAmountCache,
            snd (fetchPipeline K validPublicKey connection walletAddress))
       \<and> stakedAmountCache walletAddress = Some entry
       \<and> (\<forall>now' connection'.
             \<not> now' - timestamp entry < CACHE_DURATION K \<longrightarrow>
               snd (snd (getUserStakedAmount K validPublicKey connection' now'
                           (purgeExpired K now stakedAmountCache) walletAddress))
                 = snd (fetchPipeline K validPublicKey connection' walletAddress)
             \<and> (validPublicKey walletAddress \<longrightarrow>
                  hd (snd (fetchPipeline K validPublicKey connection' walletAddress))
                    = GetSignaturesForAddress (INCUBATOR_WALLET K)
                  \<and> snd (fetchPipeline K validPublicKey connection' walletAddress) \<noteq> []))"
proof (intro conjI allI impI)
  show "getUserStakedAmount K validPublicKey connection now stakedAmountCache walletAddress =
           (Inr (amount entry), purgeExpired K now stakedAmountCache,
            snd (fetchPipeline K validPublicKey connection walletAddress))"
    using assms by (simp add: getUserStakedAmount_cases)
  show "stakedAmountCache walletAddress = Some entry"
    using purgeExpired_Some[OF assms(2)] by simp
next
  fix now' connection'
  assume late: "\<not> now' - timestamp entry < CACHE_DURATION K"
  have "\<not> isFresh K now' (purgeExpired K now' (purgeExpired K now stakedAmountCache) walletAddress)"
    using late assms(2) by (auto simp: isFresh_def purgeExpired_def split: option.splits if_splits)
  then show "snd (snd (getUserStakedAmount K validPublicKey connection' now'
                           (purgeExpired K now stakedAmountCache) walletAddress))
                 = snd (fetchPipeline K validPublicKey connection' walletAddress)"
    by (rule not_fresh_runs_pipeline)
next
  fix now' :: int and connection'
  assume "validPublicKey walletAddress"
  then show "hd (snd (fetchPipeline K validPublicKey connection' walletAddress))
                    = GetSignaturesForAddress (INCUBATOR_WALLET K)"
    by (rule fetchPipeline_first_call)
next
  fix now' :: int and connection'
  assume "validPublicKey walletAddress"
  then show "snd (fetchPipeline K validPublicKey connection' walletAddress) \<noteq> []"
    by (simp add: fetchPipeline_calls)
qed

text \<open>Witness for C10: the entry \<open>(70, 0)\<close> at time 1000 with a connection that rejects,
  then a call at time 1001.\<close>

theorem C10_witness:
  "fst (fetchPipeline exK exValid exDown ''U'') = Inl SourceUnavailable
   \<and> purgeExpired exK 1000 exCache ''U'' = Some exEntry
   \<and> \<not> isFresh exK 1000 (Some exEntry)
   \<and> getUserStakedAmount exK exValid exDown 1000 exCache ''U'' =
       (Inr 70, purgeExpired exK 1000 exCache, [GetSignaturesForAddress ''incubator''])
   \<and> snd (snd (getUserStakedAmount exK exValid exLedger 1001
                  (purgeExpired exK 1000 exCache) ''U''))
       = snd (fetchPipeline exK exValid exLedger ''U'')
   \<and> hd (snd (fetchPipeline exK exValid exLedger ''U'')) = GetSignaturesForAddress ''incubator''"
proof -
  have p: "fst (fetchPipeline exK exValid exDown ''U'') = Inl SourceUnavailable"
    by (simp add: fetchPipeline_def exValid_def exDown_def)
  have s: "purgeExpired exK 1000 exCache ''U'' = Some exEntry"
    by (simp add: purgeExpired_def exCache_def exEntry_def exK_def)
  have f: "\<not> isFresh exK 1000 (Some exEntry)"
    by (simp add: isFresh_def exEntry_def exK_def)
  have calls: "snd (fetchPipeline exK exValid exDown ''U'') = [GetSignaturesForAddress ''incubator'']"
    by (simp add: fetchPipeline_def exValid_def exDown_def exK_def)
  have late: "\<not> 1001 - timestamp exEntry < CACHE_DURATION exK"
    by (simp add: exEntry_def exK_def)
  have v: "exValid ''U''" by (simp add: exValid_def)
  have a: "amount exEntry = 70" "INCUBATOR_WALLET exK = ''incubator''"
    by (simp_all add: exEntry_def exK_def)
  show ?thesis
    using C10_fallback_leaves_entry_untouched
            [of exK exValid exDown "''U''" SourceUnavailable 1000 exCache exEntry]
          p s f calls late v a
    by simp
qed

end
